theory Spec2Isabelle
  imports Main
begin

section \<open>JavaScript strings and arrays\<close>

text \<open>
  A JavaScript string is modelled as a \<open>string\<close> whose characters are the code units
  \<open>0..255\<close> (Latin-1); every string the claims evaluate is ASCII.
\<close>

definition is_space :: "char \<Rightarrow> bool" where
  \<comment> \<open>the code units below 256 that \<open>\\s\<close> and \<open>String.prototype.trim\<close> treat as white space:
      TAB, LF, VT, FF, CR, SPACE and NBSP\<close>
  "is_space c = ((of_char c :: nat) \<in> {9, 10, 11, 12, 13, 32, 160})"

definition trim :: "string \<Rightarrow> string" where
  "trim s = rev (dropWhile is_space (rev (dropWhile is_space s)))"

definition lower_char :: "char \<Rightarrow> char" where
  \<comment> \<open>\<open>A..Z\<close> and the Latin-1 capitals \<open>0xC0..0xDE\<close> (without the multiplication sign
      \<open>0xD7\<close>) move up by 32\<close>
  "lower_char c =
     (let n = (of_char c :: nat)
      in if (65 \<le> n \<and> n \<le> 90) \<or> (192 \<le> n \<and> n \<le> 222 \<and> n \<noteq> 215)
         then char_of (n + 32) else c)"

definition toLowerCase :: "string \<Rightarrow> string" where
  "toLowerCase s = map lower_char s"

fun startsWith :: "string \<Rightarrow> string \<Rightarrow> bool" where
  "startsWith s [] = True"
| "startsWith [] (t # ts) = False"
| "startsWith (c # cs) (t # ts) = (c = t \<and> startsWith cs ts)"

fun includes_str :: "string \<Rightarrow> string \<Rightarrow> bool" where
  \<comment> \<open>\<open>s.includes(t)\<close>: \<open>t\<close> occurs in \<open>s\<close> as a contiguous substring\<close>
  "includes_str [] t = (t = [])"
| "includes_str (c # cs) t = (startsWith (c # cs) t \<or> includes_str cs t)"

definition slice :: "int \<Rightarrow> int \<Rightarrow> 'a list \<Rightarrow> 'a list" where
  \<comment> \<open>\<open>Array.prototype.slice(a, b)\<close>: a negative index counts from the end, both ends
      are clamped to the array\<close>
  "slice a b xs =
     (let n = int (length xs);
          k = (if a < 0 then max (n + a) 0 else min a n);
          e = (if b < 0 then max (n + b) 0 else min b n)
      in take (nat (e - k)) (drop (nat k) xs))"

section \<open>Data model of the dashboard (App.js)\<close>

definition PAGE_LIMIT :: int where
  "PAGE_LIMIT = 1000"

text \<open>
  A video record as the backend sends it. A field that is absent (\<open>undefined\<close> or
  \<open>null\<close>) is \<open>None\<close>; \<open>v_id\<close> is the field \<open>_id\<close>.
\<close>

record video =
  v_id :: string
  v_Id :: "string option"
  v_title :: "string option"
  v_description :: "string option"
  v_publishedAt :: "string option"
  v_viewCount :: "string option"
  v_sourceUrl :: "string option"
  v_transcriptText :: "string option"

text \<open>The values of the search-field select: "title", "description", "transcriptText", "search".\<close>

datatype search_field = Title | Description | TranscriptText | Search

fun video_field :: "search_field \<Rightarrow> video \<Rightarrow> string option" where
  \<comment> \<open>\<open>v[key]\<close>; a record has no field named "search"\<close>
  "video_field Title v = v_title v"
| "video_field Description v = v_description v"
| "video_field TranscriptText v = v_transcriptText v"
| "video_field Search v = None"

record filters_rec =
  f_title :: string
  f_description :: string
  f_transcriptText :: string

record filter_counts =
  titleDocs :: "int option"
  descDocs :: "int option"
  transDocs :: "int option"
  totalDocs :: "int option"

text \<open>
  The state of the \<open>App\<close> component, together with the two observable effects of the
  handlers that are not React state: the lines written to the console and the alerts shown.
\<close>

record app_state =
  videos :: "video list"
  loading :: bool
  nextCursor :: "string option"
  searchText :: string
  searchField :: search_field
  filters :: filters_rec
  estimatedCount :: "int option"
  filterCounts :: filter_counts
  tempSearchText :: string
  showAddModal :: bool
  showEditModal :: bool
  appliedFilters :: "(search_field \<times> string) list"
  page :: int
  totalPages :: int
  console :: "string list"
  alerts :: "string list"
  scrollCalls :: nat

section \<open>Filter logic\<close>

definition opt_includes :: "string option \<Rightarrow> string \<Rightarrow> bool" where
  \<comment> \<open>\<open>x?.toLowerCase().includes(text)\<close>: \<open>undefined\<close>, hence falsy, when \<open>x\<close> is absent\<close>
  "opt_includes x text =
     (case x of None \<Rightarrow> False | Some s \<Rightarrow> includes_str (toLowerCase s) text)"

definition filter_entries :: "filters_rec \<Rightarrow> (search_field \<times> string) list" where
  \<comment> \<open>\<open>Object.entries(filters)\<close>, in the order the keys were inserted\<close>
  "filter_entries f =
     [(Title, f_title f), (Description, f_description f), (TranscriptText, f_transcriptText f)]"

definition apply_entry :: "video list \<Rightarrow> search_field \<times> string \<Rightarrow> video list" where
  \<comment> \<open>the body of the \<open>forEach\<close> callback\<close>
  "apply_entry filtered e =
     (case e of (key, val) \<Rightarrow>
        if trim val \<noteq> []
        then filter (\<lambda>v. opt_includes (video_field key v) (toLowerCase (trim val))) filtered
        else filtered)"

definition getFilteredVideos :: "app_state \<Rightarrow> video list" where
  "getFilteredVideos s =
     (let filtered = videos s;
          text = toLowerCase (trim (searchText s))
      in if text \<noteq> [] then
           (if searchField s = Search then
              filter (\<lambda>v. opt_includes (v_title v) text \<or>
                           opt_includes (v_description v) text \<or>
                           opt_includes (v_transcriptText v) text) filtered
            else
              filter (\<lambda>v. opt_includes (video_field (searchField s) v) text) filtered)
         else foldl apply_entry filtered (filter_entries (filters s)))"

definition or_zero :: "int option \<Rightarrow> int" where
  \<comment> \<open>\<open>x || 0\<close> for a count \<open>x\<close> that is a number or absent\<close>
  "or_zero x = (case x of None \<Rightarrow> 0 | Some n \<Rightarrow> n)"

definition getMatchedDocumentCount :: "app_state \<Rightarrow> int option" where
  \<comment> \<open>the result is a number, or \<open>None\<close> when \<open>estimatedCount\<close> is \<open>undefined\<close>; the
      \<open>default\<close> branch of the switch is the same as the "search" branch\<close>
  "getMatchedDocumentCount s =
     (if trim (searchText s) \<noteq> [] then
        (case searchField s of
           Title \<Rightarrow> Some (or_zero (titleDocs (filterCounts s)))
         | Description \<Rightarrow> Some (or_zero (descDocs (filterCounts s)))
         | TranscriptText \<Rightarrow> Some (or_zero (transDocs (filterCounts s)))
         | Search \<Rightarrow> Some (or_zero (totalDocs (filterCounts s))))
      else if trim (f_title (filters s)) \<noteq> [] then Some (or_zero (titleDocs (filterCounts s)))
      else if trim (f_description (filters s)) \<noteq> [] then Some (or_zero (descDocs (filterCounts s)))
      else if trim (f_transcriptText (filters s)) \<noteq> [] then Some (or_zero (transDocs (filterCounts s)))
      else estimatedCount s)"

definition reset :: "app_state \<Rightarrow> app_state" where
  \<comment> \<open>the \<open>onClick\<close> handler of the Reset button\<close>
  "reset s =
     s\<lparr>tempSearchText := [],
       searchText := [],
       filters := \<lparr>f_title = [], f_description = [], f_transcriptText = []\<rparr>,
       appliedFilters := [],
       page := 1,
       estimatedCount := Some (int (length (videos s)))\<rparr>"

definition tableRows :: "app_state \<Rightarrow> video list" where
  \<comment> \<open>the records the table body renders as rows\<close>
  "tableRows s =
     (if loading s then []
      else if length (getFilteredVideos s) > 0
      then slice ((page s - 1) * PAGE_LIMIT) (page s * PAGE_LIMIT) (getFilteredVideos s)
      else [])"

section \<open>Transcript editor (VisualEditor)\<close>

function strip_tags :: "string \<Rightarrow> string" where
  \<comment> \<open>\<open>content.replace(/<[^>]*>/g, "")\<close>: a \<open><\<close> with a later \<open>>\<close> is removed up to the
      first such \<open>>\<close>; a \<open><\<close> with no \<open>>\<close> after it stays\<close>
  "strip_tags [] = []"
| "strip_tags (c # cs) =
     (if c = CHR ''<'' then
        (case dropWhile (\<lambda>d. d \<noteq> CHR ''>'') cs of
           [] \<Rightarrow> c # strip_tags cs
         | g # rest \<Rightarrow> strip_tags rest)
      else c # strip_tags cs)"
  by pat_completeness auto

termination
proof (relation "measure length")
  fix c :: char and cs x21 x22
  assume "dropWhile (\<lambda>d. d \<noteq> CHR ''>'') cs = x21 # x22"
  moreover have "length (dropWhile (\<lambda>d. d \<noteq> CHR ''>'') cs) \<le> length cs"
    by (rule length_dropWhile_le)
  ultimately show "(x22, c # cs) \<in> measure length" by simp
qed simp_all

function split_ws :: "string \<Rightarrow> string \<Rightarrow> string list" where
  \<comment> \<open>\<open>str.split(/\\s+/)\<close>, with the piece read so far (reversed) as first argument: every
      maximal run of white space separates two pieces, so white space at either end
      gives an empty piece there\<close>
  "split_ws cur [] = [rev cur]"
| "split_ws cur (c # cs) =
     (if is_space c then rev cur # split_ws [] (dropWhile is_space cs)
      else split_ws (c # cur) cs)"
  by pat_completeness auto
termination
proof (relation "measure (\<lambda>(cur, s). length s)")
  fix cur :: string and c :: char and cs
  have "length (dropWhile is_space cs) \<le> length cs"
    by (rule length_dropWhile_le)
  then show "(([], dropWhile is_space cs), (cur, c # cs)) \<in> measure (\<lambda>(cur, s). length s)"
    by simp
qed simp_all

definition wordCount :: "string \<Rightarrow> nat" where
  \<comment> \<open>\<open>.filter(Boolean)\<close> drops the empty pieces\<close>
  "wordCount content = length (filter (\<lambda>w. w \<noteq> []) (split_ws [] (strip_tags content)))"

definition charCount :: "string \<Rightarrow> nat" where
  "charCount content = length (strip_tags content)"

section \<open>Row actions and the Add/Edit modal\<close>

datatype http_error = HttpError string

definition handleDelete :: "bool \<Rightarrow> http_error + unit \<Rightarrow> string \<Rightarrow> app_state \<Rightarrow> app_state" where
  \<comment> \<open>\<open>confirmed\<close> is the answer to \<open>window.confirm\<close>, \<open>res\<close> the outcome of the DELETE\<close>
  "handleDelete confirmed res ident s =
     (if \<not> confirmed then s
      else case res of
        Inl err \<Rightarrow> s\<lparr>console := console s @ [''Delete error:'']\<rparr>
      | Inr u \<Rightarrow> s\<lparr>videos := filter (\<lambda>v. v_id v \<noteq> ident) (videos s)\<rparr>)"

record form_data =
  fd_Id :: string
  fd_title :: string
  fd_description :: string
  fd_publishedAt :: string
  fd_viewCount :: string
  fd_sourceUrl :: string
  fd_transcriptText :: string

definition patch :: "video \<Rightarrow> form_data \<Rightarrow> video" where
  \<comment> \<open>\<open>{ ...item, ...formData }\<close>: the seven form fields replace the item's, \<open>_id\<close> stays\<close>
  "patch item fd =
     item\<lparr>v_Id := Some (fd_Id fd),
          v_title := Some (fd_title fd),
          v_description := Some (fd_description fd),
          v_publishedAt := Some (fd_publishedAt fd),
          v_viewCount := Some (fd_viewCount fd),
          v_sourceUrl := Some (fd_sourceUrl fd),
          v_transcriptText := Some (fd_transcriptText fd)\<rparr>"

definition closeAddModal :: "app_state \<Rightarrow> app_state" where
  "closeAddModal s = s\<lparr>showAddModal := False\<rparr>"

definition closeEditModal :: "app_state \<Rightarrow> app_state" where
  "closeEditModal s = s\<lparr>showEditModal := False\<rparr>"

definition save_failed :: "app_state \<Rightarrow> app_state" where
  \<comment> \<open>the \<open>catch\<close> block of \<open>handleSubmit\<close>\<close>
  "save_failed s =
     s\<lparr>console := console s @ [''Save error:''], alerts := alerts s @ [''Failed to save item'']\<rparr>"

definition handleSubmit ::
  "video option \<Rightarrow> form_data \<Rightarrow> (app_state \<Rightarrow> app_state) \<Rightarrow> http_error + video \<Rightarrow>
   app_state \<Rightarrow> app_state" where
  \<comment> \<open>\<open>video\<close>, \<open>formData\<close> and \<open>close\<close> are the modal's props and state; \<open>res\<close> is the
      outcome of the PUT (whose body is not read) or of the POST (\<open>res.data\<close>)\<close>
  "handleSubmit video formData close res s =
     (case video of
        Some vd \<Rightarrow>
          (case res of
             Inl err \<Rightarrow> save_failed s
           | Inr d \<Rightarrow>
               close (s\<lparr>videos :=
                 map (\<lambda>item. if v_id item = v_id vd then patch item formData else item) (videos s)\<rparr>))
      | None \<Rightarrow>
          (case res of
             Inl err \<Rightarrow> save_failed s
           | Inr d \<Rightarrow> close (s\<lparr>videos := d # videos s\<rparr>)))"

section \<open>Pagination\<close>

record params =
  q_limit :: int
  q_last_id :: "string option"
  q_title :: string
  q_description :: string
  q_transcriptText :: string
  q_search :: string
  q_search_field :: search_field

record response =
  data :: "video list option"
  next_cursor :: "string option"

text \<open>
  The backend is an external service: a GET on the videos endpoint either fails or
  answers, and may change the backend's own state \<open>'b\<close>.
\<close>

type_synonym 'b backend = "'b \<Rightarrow> params \<Rightarrow> (http_error + response) \<times> 'b"

type_synonym exchange = "params \<times> (http_error + response)"

definition truthy :: "string option \<Rightarrow> bool" where
  \<comment> \<open>a cursor is falsy when it is \<open>null\<close>, \<open>undefined\<close> or the empty string\<close>
  "truthy c = (case c of None \<Rightarrow> False | Some x \<Rightarrow> x \<noteq> [])"

definition or_null :: "string option \<Rightarrow> string option" where
  \<comment> \<open>\<open>c || null\<close>\<close>
  "or_null c = (if truthy c then c else None)"

definition or_empty :: "video list option \<Rightarrow> video list" where
  \<comment> \<open>\<open>d || []\<close>\<close>
  "or_empty d = (case d of None \<Rightarrow> [] | Some xs \<Rightarrow> xs)"

definition page_params :: "app_state \<Rightarrow> string option \<Rightarrow> params" where
  "page_params s cursor =
     \<lparr>q_limit = PAGE_LIMIT,
      q_last_id = cursor,
      q_title = f_title (filters s),
      q_description = f_description (filters s),
      q_transcriptText = f_transcriptText (filters s),
      q_search = searchText s,
      q_search_field = searchField s\<rparr>"

text \<open>
  The \<open>while\<close> loop of \<open>handlePageChange\<close>. It has no bound of its own, so it is a partial
  function: \<open>None\<close> means that the loop never ends. A result \<open>Inl err\<close> is the exception
  of a failed GET leaving the loop, \<open>Inr (filteredVideos, cursor)\<close> its normal end. The
  requests sent and their answers are collected in \<open>log\<close>.
\<close>

partial_function (option) fetchLoop ::
  "'b backend \<Rightarrow> app_state \<Rightarrow> int \<Rightarrow> 'b \<Rightarrow> exchange list \<Rightarrow> video list \<Rightarrow> string option \<Rightarrow>
   ((http_error + video list \<times> string option) \<times> 'b \<times> exchange list) option" where
  "fetchLoop be s requiredDataCount b log filteredVideos cursor =
     (if int (length filteredVideos) < requiredDataCount \<and> truthy cursor then
        (case be b (page_params s cursor) of
           (Inl err, b') \<Rightarrow> Some (Inl err, b', log @ [(page_params s cursor, Inl err)])
         | (Inr res, b') \<Rightarrow>
             fetchLoop be s requiredDataCount b'
               (log @ [(page_params s cursor, Inr res)])
               (filteredVideos @ or_empty (data res))
               (or_null (next_cursor res)))
      else Some (Inr (filteredVideos, cursor), b, log))"

definition handlePageChange ::
  "'b backend \<Rightarrow> 'b \<Rightarrow> int \<Rightarrow> app_state \<Rightarrow> (app_state \<times> 'b \<times> exchange list) option" where
  \<comment> \<open>the result is the state once the handler has returned, the backend's state and the
      requests the handler has sent\<close>
  "handlePageChange be b targetPage s =
     (if targetPage < 1 \<or> targetPage > totalPages s \<or> targetPage = page s then Some (s, b, [])
      else
        (case fetchLoop be s (targetPage * PAGE_LIMIT) b [] (getFilteredVideos s) (nextCursor s) of
           None \<Rightarrow> None
         | Some (Inl err, b', log) \<Rightarrow>
             Some (s\<lparr>page := targetPage,
                     console := console s @ [''Error loading page data:''],
                     loading := False,
                     scrollCalls := Suc (scrollCalls s)\<rparr>, b', log)
         | Some (Inr (buf, cursor), b', log) \<Rightarrow>
             Some (s\<lparr>page := targetPage,
                     videos := buf,
                     nextCursor := cursor,
                     loading := False,
                     scrollCalls := Suc (scrollCalls s)\<rparr>, b', log)))"

section \<open>Properties of the environment and of a run\<close>

text \<open>A record passes the local filter when the filtered view of a list holding just it keeps it.\<close>

definition passes :: "app_state \<Rightarrow> video \<Rightarrow> bool" where
  "passes s v = (getFilteredVideos (s\<lparr>videos := [v]\<rparr>) = [v])"








section \<open>Concrete states and backends\<close>

definition initial_state :: app_state where
  \<comment> \<open>the \<open>useState\<close> defaults of \<open>App\<close>\<close>
  "initial_state =
     \<lparr>videos = [], loading = False, nextCursor = None, searchText = [], searchField = Title,
      filters = \<lparr>f_title = [], f_description = [], f_transcriptText = []\<rparr>,
      estimatedCount = Some 0,
      filterCounts = \<lparr>titleDocs = Some 0, descDocs = Some 0, transDocs = Some 0, totalDocs = Some 0\<rparr>,
      tempSearchText = [], showAddModal = False, showEditModal = False, appliedFilters = [],
      page = 1, totalPages = 1, console = [], alerts = [], scrollCalls = 0\<rparr>"

definition video_cat :: video where
  "video_cat =
     \<lparr>v_id = ''1'', v_Id = Some ''A1'', v_title = Some ''Cat video'',
      v_description = Some ''a cat'', v_publishedAt = None, v_viewCount = Some ''10'',
      v_sourceUrl = None, v_transcriptText = Some ''<p>meow</p>''\<rparr>"

definition video_dog :: video where
  "video_dog =
     \<lparr>v_id = ''2'', v_Id = Some ''A2'', v_title = Some ''Dog video'',
      v_description = Some ''a dog'', v_publishedAt = None, v_viewCount = Some ''20'',
      v_sourceUrl = None, v_transcriptText = Some ''<p>woof</p>''\<rparr>"

definition blank_form :: form_data where
  \<comment> \<open>\<open>FIELDS\<close>\<close>
  "blank_form =
     \<lparr>fd_Id = [], fd_title = [], fd_description = [], fd_publishedAt = [], fd_viewCount = [],
      fd_sourceUrl = [], fd_transcriptText = []\<rparr>"

definition cat_search_state :: app_state where
  \<comment> \<open>one record loaded, the title search "cat" active\<close>
  "cat_search_state = initial_state\<lparr>videos := [video_cat], searchText := ''cat''\<rparr>"

definition two_videos_state :: app_state where
  "two_videos_state = initial_state\<lparr>videos := [video_cat, video_dog]\<rparr>"

definition no_counts_state :: app_state where
  \<comment> \<open>after \<open>fetchVideos\<close> got an answer without \<open>filter_counts\<close>: \<open>setFilterCounts({})\<close>;
      an any-field search for "a" is active\<close>
  "no_counts_state =
     initial_state\<lparr>searchText := ''a'', searchField := Search,
       filterCounts := \<lparr>titleDocs = None, descDocs = None, transDocs = None, totalDocs = None\<rparr>\<rparr>"

definition any_field_state :: app_state where
  "any_field_state =
     initial_state\<lparr>searchText := '' cat '', searchField := Search,
       filterCounts := \<lparr>titleDocs = Some 3, descDocs = Some 4, transDocs = Some 5, totalDocs = Some 9\<rparr>\<rparr>"

definition blank_title_state :: app_state where
  \<comment> \<open>the title filter holds one space, the description filter "x"\<close>
  "blank_title_state =
     initial_state\<lparr>filters := \<lparr>f_title = '' '', f_description = ''x'', f_transcriptText = []\<rparr>,
       filterCounts := \<lparr>titleDocs = Some 5, descDocs = Some 7, transDocs = Some 8, totalDocs = Some 9\<rparr>\<rparr>"

definition two_filters_state :: app_state where
  "two_filters_state =
     initial_state\<lparr>filters := \<lparr>f_title = ''cat'', f_description = ''x'', f_transcriptText = []\<rparr>,
       filterCounts := \<lparr>titleDocs = Some 5, descDocs = Some 7, transDocs = Some 8, totalDocs = Some 9\<rparr>\<rparr>"

definition paging_state :: app_state where
  \<comment> \<open>page 1 of 2 shown, one record loaded and a cursor to continue with\<close>
  "paging_state = initial_state\<lparr>videos := [video_cat], nextCursor := Some ''x'', totalPages := 2\<rparr>"



text \<open>A backend that answers every GET with no record and the cursor "x".\<close>

definition stuck_backend :: "unit backend" where
  "stuck_backend b p = (Inr \<lparr>data = Some [], next_cursor = Some ''x''\<rparr>, b)"

section \<open>The filtered view as a filter\<close>

lemma apply_entry_filter:
  "apply_entry xs e = filter (\<lambda>v. apply_entry [v] e = [v]) xs"
  by (cases e) (simp add: apply_entry_def)

lemma foldl_apply_entry_filter:
  "foldl apply_entry xs es = filter (\<lambda>v. \<forall>e\<in>set es. apply_entry [v] e = [v]) xs"
proof (induction es arbitrary: xs)
  case Nil
  show ?case by simp
next
  case (Cons e es)
  have "foldl apply_entry xs (e # es) = foldl apply_entry (apply_entry xs e) es"
    by simp
  also have "\<dots> = filter (\<lambda>v. \<forall>e\<in>set es. apply_entry [v] e = [v]) (apply_entry xs e)"
    by (rule Cons.IH)
  also have "\<dots> = filter (\<lambda>v. \<forall>e\<in>set es. apply_entry [v] e = [v])
                      (filter (\<lambda>v. apply_entry [v] e = [v]) xs)"
    by (subst apply_entry_filter) (rule refl)
  also have "\<dots> = filter (\<lambda>v. \<forall>e\<in>set (e # es). apply_entry [v] e = [v]) xs"
    by (simp add: conj_commute)
  finally show ?case .
qed

lemma foldl_apply_entry_single:
  "(foldl apply_entry [v] es = [v]) = (\<forall>e\<in>set es. apply_entry [v] e = [v])"
  by (subst foldl_apply_entry_filter) simp

lemma passes_entries:
  "toLowerCase (trim (searchText s)) = [] \<Longrightarrow>
   passes s v = (\<forall>e\<in>set (filter_entries (filters s)). apply_entry [v] e = [v])"
  by (simp add: passes_def getFilteredVideos_def Let_def foldl_apply_entry_single del: foldl_Cons)

lemma getFilteredVideos_filter:
  "getFilteredVideos s = filter (passes s) (videos s)"
proof (cases "toLowerCase (trim (searchText s)) = []")
  case True
  have "getFilteredVideos s = foldl apply_entry (videos s) (filter_entries (filters s))"
    using True by (simp add: getFilteredVideos_def Let_def)
  also have "\<dots> = filter (\<lambda>v. \<forall>e\<in>set (filter_entries (filters s)). apply_entry [v] e = [v]) (videos s)"
    by (rule foldl_apply_entry_filter)
  also have "\<dots> = filter (passes s) (videos s)"
    by (rule filter_cong) (simp_all add: passes_entries [OF True])
  finally show ?thesis .
next
  case False
  show ?thesis
    by (rule sym, rule trans, rule filter_cong [OF refl, where Q = "\<lambda>v. getFilteredVideos (s\<lparr>videos := [v]\<rparr>) = [v]"])
       (use False in \<open>simp_all add: getFilteredVideos_def passes_def Let_def\<close>)
qed

lemma passes_cong:
  "searchText s = searchText t \<Longrightarrow> searchField s = searchField t \<Longrightarrow> filters s = filters t \<Longrightarrow>
   passes s = passes t"
  by (rule ext) (simp add: passes_def getFilteredVideos_def Let_def)

section \<open>The fetch loop\<close>




lemma slice_first_page: "slice 0 PAGE_LIMIT (d # xs) = d # take 999 xs"
  by (simp add: slice_def PAGE_LIMIT_def Let_def min_def)




section \<open>Claims\<close>

subsection \<open>C1: the fetch loop of the pager\<close>






subsection \<open>C2: a failed save\<close>

text \<open>
  C2. When the HTTP call of a create or update submission fails, \<open>handleSubmit\<close> shows the
  alert "Failed to save item" and leaves the local videos list as it was: nothing is
  prepended and nothing is patched.
\<close>

theorem handleSubmit_failure_atomic:
  "videos (handleSubmit video formData close (Inl err) s) = videos s \<and>
   alerts (handleSubmit video formData close (Inl err) s) = alerts s @ [''Failed to save item'']"
  by (simp add: handleSubmit_def save_failed_def split: option.split)

subsection \<open>C3: creating a record\<close>

text \<open>
  C3, as the specification states it, has the created record appear as the first row of the
  table. With the title search "cat" active, a created record titled "Dog video" is stored
  at the head of the list and the table does not show it: its only row is the record shown before.
\<close>

theorem created_record_not_rendered:
  "videos (handleSubmit None blank_form closeAddModal (Inr video_dog) cat_search_state) =
     [video_dog, video_cat] \<and>
   tableRows (handleSubmit None blank_form closeAddModal (Inr video_dog) cat_search_state) =
     [video_cat]"
  by code_simp

text \<open>
  C3 as amended. A successful create submission (no existing record supplied to the modal)
  puts the record the POST returned at the head of the local videos list. It is the first
  row of the table when the table is not loading, the current page is 1 and the record
  passes the local search and filters; the rows after it are the first 999 of the view
  shown before.
\<close>

theorem handleSubmit_create_prepends:
  "videos (handleSubmit None formData closeAddModal (Inr d) s) = d # videos s \<and>
   (page s = 1 \<and> \<not> loading s \<and> passes s d \<longrightarrow>
    tableRows (handleSubmit None formData closeAddModal (Inr d) s) =
      d # take 999 (getFilteredVideos s))"
proof -
  let ?s' = "s\<lparr>videos := d # videos s, showAddModal := False\<rparr>"
  have run: "handleSubmit None formData closeAddModal (Inr d) s = ?s'"
    by (simp add: handleSubmit_def closeAddModal_def)
  have pass: "passes ?s' = passes s"
    by (rule passes_cong) simp_all
  have rows: "tableRows ?s' = d # take 999 (getFilteredVideos s)"
    if "page s = 1" "\<not> loading s" "passes s d"
  proof -
    have "getFilteredVideos ?s' = d # getFilteredVideos s"
      using that by (simp add: getFilteredVideos_filter pass)
    then show ?thesis
      using that slice_first_page [of d "getFilteredVideos s"] by (simp add: tableRows_def)
  qed
  show ?thesis
    unfolding run using rows by simp
qed

theorem handleSubmit_create_prepends_witness:
  "page two_videos_state = 1 \<and> \<not> loading two_videos_state \<and> passes two_videos_state video_dog \<and>
   tableRows (handleSubmit None blank_form closeAddModal (Inr video_dog) two_videos_state) =
     video_dog # take 999 (getFilteredVideos two_videos_state)"
proof -
  have h: "page two_videos_state = 1 \<and> \<not> loading two_videos_state \<and> passes two_videos_state video_dog"
    by (simp add: two_videos_state_def initial_state_def passes_def getFilteredVideos_def Let_def
        trim_def toLowerCase_def filter_entries_def apply_entry_def)
  show ?thesis
    using h handleSubmit_create_prepends [of blank_form video_dog two_videos_state] by simp
qed

subsection \<open>C4: deleting a record\<close>

text \<open>
  C4. Let the identifiers of the local videos list be distinct and let \<open>ident\<close> be one of
  them. A confirmed delete that the backend accepts removes exactly the one record with
  that identifier: the list splits around it, and what is left is the part before followed
  by the part after, unchanged and in the same order.
\<close>

theorem handleDelete_removes_one:
  assumes uniq: "distinct (map v_id (videos s))"
    and occurs: "ident \<in> v_id ` set (videos s)"
  shows "\<exists>pre v post.
     videos s = pre @ v # post \<and> v_id v = ident \<and>
     videos (handleDelete True (Inr ()) ident s) = pre @ post \<and>
     ident \<notin> v_id ` set (pre @ post)"
proof -
  from occurs obtain v where v: "v \<in> set (videos s)" "v_id v = ident" by auto
  from v(1) obtain pre post where split: "videos s = pre @ v # post"
    by (auto simp: in_set_conv_decomp)
  from uniq split v(2) have others: "ident \<notin> v_id ` set pre" "ident \<notin> v_id ` set post"
    by auto
  then have keep: "filter (\<lambda>w. v_id w \<noteq> ident) pre = pre" "filter (\<lambda>w. v_id w \<noteq> ident) post = post"
    by (auto intro: filter_True)
  have "videos (handleDelete True (Inr ()) ident s) = pre @ post"
    by (simp add: handleDelete_def split keep v(2))
  with split v(2) others show ?thesis
    by (intro exI [of _ pre] exI [of _ v] exI [of _ post]) auto
qed

theorem handleDelete_removes_one_witness:
  "distinct (map v_id (videos two_videos_state)) \<and> ''2'' \<in> v_id ` set (videos two_videos_state) \<and>
   (\<exists>pre v post.
     videos two_videos_state = pre @ v # post \<and> v_id v = ''2'' \<and>
     videos (handleDelete True (Inr ()) ''2'' two_videos_state) = pre @ post \<and>
     ''2'' \<notin> v_id ` set (pre @ post))"
proof -
  have h: "distinct (map v_id (videos two_videos_state))" "''2'' \<in> v_id ` set (videos two_videos_state)"
    by (simp_all add: two_videos_state_def initial_state_def video_cat_def video_dog_def)
  show ?thesis
    using h handleDelete_removes_one [OF h] by simp
qed

lemma handleDelete_run:
  "videos (handleDelete True (Inr ()) ''2'' two_videos_state) = [video_cat]"
  by (simp add: handleDelete_def two_videos_state_def initial_state_def video_cat_def video_dog_def)

subsection \<open>C5: the matched count of an any-field search\<close>

text \<open>
  C5, as the specification states it, has \<open>getMatchedDocumentCount\<close> return
  \<open>filterCounts.totalDocs\<close>. When \<open>filterCounts\<close> holds no \<open>totalDocs\<close> (as after an answer
  without \<open>filter_counts\<close>), an any-field search for "a" gives the number 0, which is not
  the absent \<open>filterCounts.totalDocs\<close>.
\<close>

theorem matched_count_of_absent_total:
  "trim (searchText no_counts_state) \<noteq> [] \<and> searchField no_counts_state = Search \<and>
   getMatchedDocumentCount no_counts_state = Some 0 \<and>
   totalDocs (filterCounts no_counts_state) = None"
  by (simp add: no_counts_state_def initial_state_def getMatchedDocumentCount_def trim_def
      is_space_def or_zero_def)

text \<open>
  C5 as amended. Whenever the search query is non-empty after trimming and the search field
  is the any-field option, \<open>getMatchedDocumentCount\<close> returns \<open>filterCounts.totalDocs\<close> when
  that count is present, and 0 when it is absent.
\<close>

theorem getMatchedDocumentCount_any_field:
  "trim (searchText s) \<noteq> [] \<Longrightarrow> searchField s = Search \<Longrightarrow>
   getMatchedDocumentCount s =
     (case totalDocs (filterCounts s) of None \<Rightarrow> Some 0 | Some n \<Rightarrow> Some n)"
  by (simp add: getMatchedDocumentCount_def or_zero_def split: option.split)

theorem getMatchedDocumentCount_any_field_witness:
  "trim (searchText any_field_state) \<noteq> [] \<and> searchField any_field_state = Search \<and>
   getMatchedDocumentCount any_field_state = Some 9"
proof -
  have h: "trim (searchText any_field_state) \<noteq> []" "searchField any_field_state = Search"
    by (simp_all add: any_field_state_def initial_state_def trim_def is_space_def)
  have "totalDocs (filterCounts any_field_state) = Some 9"
    by (simp add: any_field_state_def initial_state_def)
  then show ?thesis
    using h getMatchedDocumentCount_any_field [OF h] by simp
qed

subsection \<open>C6: Reset gives the unfiltered view\<close>

text \<open>
  C6. After Reset, whatever search query and per-field filters were set before,
  \<open>getFilteredVideos\<close> returns the loaded videos list itself: every record, in the same
  order. Reset does not touch the loaded list.
\<close>

theorem reset_shows_all:
  "getFilteredVideos (reset s) = videos s \<and> videos (reset s) = videos s"
  by (simp add: getFilteredVideos_def reset_def toLowerCase_def trim_def filter_entries_def
      apply_entry_def)

subsection \<open>C7: word and character count\<close>

text \<open>
  C7. For the editor content \<open><p>Hello world</p>\<close> the word count is 2 and the character
  count is 11.
\<close>

theorem hello_world_counts:
  "wordCount ''<p>Hello world</p>'' = 2 \<and> charCount ''<p>Hello world</p>'' = 11"
  by (simp add: wordCount_def charCount_def is_space_def)

subsection \<open>C8: page changes that do nothing\<close>

text \<open>
  C8. When the target page is below 1, above \<open>totalPages\<close> or the current page,
  \<open>handlePageChange\<close> returns at once: the whole state stays as it is, the backend is not
  asked and no request is sent.
\<close>

theorem handlePageChange_noop:
  "targetPage < 1 \<or> targetPage > totalPages s \<or> targetPage = page s \<Longrightarrow>
   handlePageChange be b targetPage s = Some (s, b, [])"
  by (simp add: handlePageChange_def)

theorem handlePageChange_noop_witness:
  "((3::int) < 1 \<or> 3 > totalPages paging_state \<or> 3 = page paging_state) \<and>
   handlePageChange stuck_backend () 3 paging_state = Some (paging_state, (), [])"
proof -
  have h: "(3::int) < 1 \<or> 3 > totalPages paging_state \<or> 3 = page paging_state"
    by (simp add: paging_state_def initial_state_def)
  show ?thesis
    using h handlePageChange_noop [OF h, of stuck_backend "()"] by simp
qed

subsection \<open>C9: an active search ignores the per-field filters\<close>

text \<open>
  C9. Whenever the search query is non-empty after trimming, the filtered view is the same
  for every two settings of the three per-field filters: with the loaded list, the query and
  the search field fixed, \<open>getFilteredVideos\<close> does not depend on them.
\<close>

theorem search_ignores_filters:
  "trim (searchText s) \<noteq> [] \<Longrightarrow>
   getFilteredVideos (s\<lparr>filters := f\<rparr>) = getFilteredVideos (s\<lparr>filters := g\<rparr>)"
  by (simp add: getFilteredVideos_def toLowerCase_def Let_def)

theorem search_ignores_filters_witness:
  "trim (searchText cat_search_state) \<noteq> [] \<and>
   getFilteredVideos (cat_search_state\<lparr>filters := filters blank_title_state\<rparr>) =
   getFilteredVideos (cat_search_state\<lparr>filters := filters initial_state\<rparr>)"
proof -
  have h: "trim (searchText cat_search_state) \<noteq> []"
    by (simp add: cat_search_state_def initial_state_def trim_def is_space_def)
  show ?thesis
    using h search_ignores_filters [OF h] by simp
qed

subsection \<open>C10: precedence of the per-field counts\<close>

text \<open>
  C10, as the specification states it, has the title count returned whenever the title
  filter is non-empty. A title filter of one space is non-empty, yet with the description
  filter "x" beside it the description count 7 is returned, not the title count 5.
\<close>

theorem blank_title_filter_skipped:
  "searchText blank_title_state = [] \<and>
   f_title (filters blank_title_state) \<noteq> [] \<and>
   f_description (filters blank_title_state) \<noteq> [] \<and>
   titleDocs (filterCounts blank_title_state) = Some 5 \<and>
   getMatchedDocumentCount blank_title_state = Some 7"
  by (simp add: blank_title_state_def initial_state_def getMatchedDocumentCount_def trim_def
      is_space_def or_zero_def)

text \<open>
  C10 as amended. When the search query is empty after trimming, \<open>getMatchedDocumentCount\<close>
  goes by the filters that are non-empty after trimming, in a fixed order: the title count
  if the title filter is one of them, otherwise the description count if the description
  filter is, otherwise the transcript count if the transcript filter is. The counts of the
  filters further down are not looked at. A count that is absent from \<open>filterCounts\<close> is
  returned as 0.
\<close>

theorem getMatchedDocumentCount_precedence:
  "trim (searchText s) = [] \<Longrightarrow>
   (trim (f_title (filters s)) \<noteq> [] \<longrightarrow>
      getMatchedDocumentCount s =
        (case titleDocs (filterCounts s) of None \<Rightarrow> Some 0 | Some n \<Rightarrow> Some n)) \<and>
   (trim (f_title (filters s)) = [] \<and> trim (f_description (filters s)) \<noteq> [] \<longrightarrow>
      getMatchedDocumentCount s =
        (case descDocs (filterCounts s) of None \<Rightarrow> Some 0 | Some n \<Rightarrow> Some n)) \<and>
   (trim (f_title (filters s)) = [] \<and> trim (f_description (filters s)) = [] \<and>
    trim (f_transcriptText (filters s)) \<noteq> [] \<longrightarrow>
      getMatchedDocumentCount s =
        (case transDocs (filterCounts s) of None \<Rightarrow> Some 0 | Some n \<Rightarrow> Some n))"
  by (simp add: getMatchedDocumentCount_def or_zero_def split: option.split)

theorem getMatchedDocumentCount_precedence_witness:
  "trim (searchText two_filters_state) = [] \<and>
   trim (f_title (filters two_filters_state)) \<noteq> [] \<and>
   trim (f_description (filters two_filters_state)) \<noteq> [] \<and>
   getMatchedDocumentCount two_filters_state = Some 5"
proof -
  have h: "trim (searchText two_filters_state) = []"
    by (simp add: two_filters_state_def initial_state_def trim_def)
  have t: "trim (f_title (filters two_filters_state)) \<noteq> []"
    "trim (f_description (filters two_filters_state)) \<noteq> []"
    by (simp_all add: two_filters_state_def initial_state_def trim_def is_space_def)
  have "titleDocs (filterCounts two_filters_state) = Some 5"
    by (simp add: two_filters_state_def initial_state_def)
  then show ?thesis
    using h t getMatchedDocumentCount_precedence [OF h] by simp
qed

end
